theory Spec2Isabelle
  imports Main "HOL-Library.Word"
begin

section \<open>Data model of LambdaBuilder.c\<close>

text \<open>
  The bridge is a table of function pointers, filled from a loaded shared library by
  \<^verbatim>\<open>initialisePythonLibrary\<close>, and a set of thin marshalling routines that call the
  foreign runtime through that table.

  Pointers (\<^verbatim>\<open>void*\<close>, \<^verbatim>\<open>PyObject*\<close>, every function pointer) are 64-bit addresses
  with \<^verbatim>\<open>NULL\<close> = 0; \<^verbatim>\<open>int\<close> is a 32-bit word and \<^verbatim>\<open>long int\<close> a 64-bit word (the
  LP64 targets of the package). A \<^verbatim>\<open>double\<close> is carried as its 64-bit pattern: the bridge
  only moves it, it never computes with it. A C string is its content.
\<close>

type_synonym addr = "64 word"
type_synonym cint = "32 word"
type_synonym clong = "64 word"
type_synonym cdouble = "64 word"

text \<open>A native value handed to, or written back by, one of the two variadic entry points.\<close>

datatype cval = VLong clong | VDouble cdouble | VStr string | VObj addr

text \<open>
  The file-level variables of LambdaBuilder.c: the library handle and one slot per
  entry point, in the order of their declarations.
\<close>

record symtab =
  pythonLibraryHandle :: addr
  pyarg_parsetuple :: addr
  py_buildvalue :: addr
  pyunicode_asutf8 :: addr
  pyunicode_fromstring :: addr
  py_createPyCFunction :: addr
  py_boolfromlong :: addr
  py_runString :: addr
  py_errorprint :: addr
  py_getitemstring :: addr
  py_setitemstring :: addr
  py_evalgetbuiltins :: addr
  py_getglobals :: addr
  py_import_addmodule :: addr
  py_import_getmodule :: addr
  py_module_getdict :: addr
  py_object_getattrstring :: addr
  py_object_setattrstring :: addr
  py_run_interactiveone :: addr
  py_error_clear :: addr
  py_compile_string :: addr
  py_err_occurred :: addr
  py_execute :: addr

subsection \<open>initialisePythonLibrary\<close>

text \<open>
  The loader is a parameter: \<open>dlsym h n\<close> is the address that the library behind handle
  \<open>h\<close> exports under the name \<open>n\<close>, or 0. The function stores the handle and then
  assigns the slots one after the other, as the \<^verbatim>\<open>#else\<close> branch of the source does.
  The \<^verbatim>\<open>_WIN32\<close> alternative, which would assign six of the slots only, is left out: it
  is not C that compiles (it casts the handle to \<^verbatim>\<open>HINSTANCE__\<close>, a struct tag and no
  type name, and the file includes \<^verbatim>\<open>dlfcn.h\<close> and \<^verbatim>\<open>Python/Python.h\<close> unguarded), so
  the \<^verbatim>\<open>dlsym\<close> branch is the program. The C function declares an \<^verbatim>\<open>int\<close> result and
  returns none; the model returns the updated table only.
\<close>

definition initialisePythonLibrary :: "(addr \<Rightarrow> string \<Rightarrow> addr) \<Rightarrow> addr \<Rightarrow> symtab \<Rightarrow> symtab" where
  "initialisePythonLibrary dlsym libraryHandle t =
     (let t0 = t\<lparr>pythonLibraryHandle := libraryHandle\<rparr>;
          h = pythonLibraryHandle t0
      in t0\<lparr>pyarg_parsetuple := dlsym h ''PyArg_ParseTuple'',
            py_buildvalue := dlsym h ''Py_BuildValue'',
            pyunicode_asutf8 := dlsym h ''PyUnicode_AsUTF8'',
            pyunicode_fromstring := dlsym h ''PyUnicode_FromString'',
            py_boolfromlong := dlsym h ''PyBool_FromLong'',
            py_createPyCFunction := dlsym h ''PyCFunction_NewEx'',
            py_runString := dlsym h ''PyRun_String'',
            py_errorprint := dlsym h ''PyErr_Print'',
            py_error_clear := dlsym h ''PyErr_Clear'',
            py_getitemstring := dlsym h ''PyDict_GetItemString'',
            py_setitemstring := dlsym h ''PyDict_SetItemString'',
            py_evalgetbuiltins := dlsym h ''PyEval_GetBuiltins'',
            py_getglobals := dlsym h ''PyEval_GetGlobals'',
            py_import_addmodule := dlsym h ''PyImport_AddModule'',
            py_import_getmodule := dlsym h ''PyImport_GetModule'',
            py_module_getdict := dlsym h ''PyModule_GetDict'',
            py_object_getattrstring := dlsym h ''PyObject_GetAttrString'',
            py_object_setattrstring := dlsym h ''PyObject_SetAttrString'',
            py_run_interactiveone := dlsym h ''PyRun_InteractiveOne'',
            py_compile_string := dlsym h ''Py_CompileString'',
            py_err_occurred := dlsym h ''PyErr_Occurred'',
            py_execute := dlsym h ''PyRun_SimpleString''\<rparr>)"

text \<open>
  Every function-pointer variable of the file, paired with the name under which
  \<^verbatim>\<open>initialisePythonLibrary\<close> looks it up (declaration order).
\<close>

definition entry_points :: "(string \<times> (symtab \<Rightarrow> addr)) list" where
  "entry_points =
     [(''PyArg_ParseTuple'', pyarg_parsetuple),
      (''Py_BuildValue'', py_buildvalue),
      (''PyUnicode_AsUTF8'', pyunicode_asutf8),
      (''PyUnicode_FromString'', pyunicode_fromstring),
      (''PyCFunction_NewEx'', py_createPyCFunction),
      (''PyBool_FromLong'', py_boolfromlong),
      (''PyRun_String'', py_runString),
      (''PyErr_Print'', py_errorprint),
      (''PyDict_GetItemString'', py_getitemstring),
      (''PyDict_SetItemString'', py_setitemstring),
      (''PyEval_GetBuiltins'', py_evalgetbuiltins),
      (''PyEval_GetGlobals'', py_getglobals),
      (''PyImport_AddModule'', py_import_addmodule),
      (''PyImport_GetModule'', py_import_getmodule),
      (''PyModule_GetDict'', py_module_getdict),
      (''PyObject_GetAttrString'', py_object_getattrstring),
      (''PyObject_SetAttrString'', py_object_setattrstring),
      (''PyRun_InteractiveOne'', py_run_interactiveone),
      (''PyErr_Clear'', py_error_clear),
      (''Py_CompileString'', py_compile_string),
      (''PyErr_Occurred'', py_err_occurred),
      (''PyRun_SimpleString'', py_execute)]"

definition slots :: "symtab \<Rightarrow> addr list" where
  "slots t = map (\<lambda>(n, slot). slot t) entry_points"

text \<open>The table of a fresh process: file-level variables start zeroed.\<close>

definition unloaded :: symtab where
  "unloaded =
     \<lparr>pythonLibraryHandle = 0, pyarg_parsetuple = 0, py_buildvalue = 0,
      pyunicode_asutf8 = 0, pyunicode_fromstring = 0, py_createPyCFunction = 0,
      py_boolfromlong = 0, py_runString = 0, py_errorprint = 0, py_getitemstring = 0,
      py_setitemstring = 0, py_evalgetbuiltins = 0, py_getglobals = 0,
      py_import_addmodule = 0, py_import_getmodule = 0, py_module_getdict = 0,
      py_object_getattrstring = 0, py_object_setattrstring = 0,
      py_run_interactiveone = 0, py_error_clear = 0, py_compile_string = 0,
      py_err_occurred = 0, py_execute = 0\<rparr>"

text \<open>
  Two libraries for the examples. The first exports every name the bridge looks up, at
  addresses 16 bytes apart behind the handle; the second is the same without
  \<^verbatim>\<open>PyErr_Print\<close>.
\<close>

fun exports_from :: "addr \<Rightarrow> string list \<Rightarrow> (string \<times> addr) list" where
  "exports_from a [] = []"
| "exports_from a (n # ns) = (n, a) # exports_from (a + 16) ns"

definition full_library :: "addr \<Rightarrow> string \<Rightarrow> addr" where
  "full_library h n =
     (case map_of (exports_from (h + 16) (map fst entry_points)) n of
        None \<Rightarrow> 0
      | Some a \<Rightarrow> a)"

definition lib_without_print :: "addr \<Rightarrow> string \<Rightarrow> addr" where
  "lib_without_print h n = (if n = ''PyErr_Print'' then 0 else full_library h n)"

subsection \<open>The foreign runtime\<close>

text \<open>
  The runtime behind the table is outside the package and is a parameter of every
  routine: one function per entry point that the modelled routines call, over a runtime
  state of any type. Each takes the C arguments and the state before the call and gives
  the C result and the state after it. A field is what a call through the slot of that
  name does once the slot is resolved.

  \<^verbatim>\<open>PyArg_ParseTuple\<close> receives the addresses of the caller's locals after the format;
  its result carries, besides the \<^verbatim>\<open>int\<close> status, what it stored through them, one entry
  per output position (\<open>None\<close>: nothing stored there). \<^verbatim>\<open>Py_BuildValue\<close> receives the
  variadic arguments as a list. \<^verbatim>\<open>PyDict_SetItemString\<close> has the type under which the
  file declares \<^verbatim>\<open>py_setitemstring\<close>, with a pointer-sized result.
\<close>

record 'rt runtime =
  PyArg_ParseTuple :: "addr \<Rightarrow> string \<Rightarrow> 'rt \<Rightarrow> (cint \<times> cval option list) \<times> 'rt"
  Py_BuildValue :: "string \<Rightarrow> cval list \<Rightarrow> 'rt \<Rightarrow> addr \<times> 'rt"
  PyUnicode_FromString :: "string \<Rightarrow> 'rt \<Rightarrow> addr \<times> 'rt"
  PyBool_FromLong :: "clong \<Rightarrow> 'rt \<Rightarrow> addr \<times> 'rt"
  PyRun_String :: "string \<Rightarrow> cint \<Rightarrow> addr \<Rightarrow> addr \<Rightarrow> 'rt \<Rightarrow> addr \<times> 'rt"
  PyErr_Print :: "'rt \<Rightarrow> unit \<times> 'rt"
  PyErr_Clear :: "'rt \<Rightarrow> unit \<times> 'rt"
  PyDict_GetItemString :: "addr \<Rightarrow> string \<Rightarrow> 'rt \<Rightarrow> addr \<times> 'rt"
  PyDict_SetItemString :: "addr \<Rightarrow> string \<Rightarrow> addr \<Rightarrow> 'rt \<Rightarrow> addr \<times> 'rt"
  PyEval_GetBuiltins :: "'rt \<Rightarrow> addr \<times> 'rt"
  PyImport_AddModule :: "string \<Rightarrow> 'rt \<Rightarrow> addr \<times> 'rt"
  PyModule_GetDict :: "addr \<Rightarrow> 'rt \<Rightarrow> addr \<times> 'rt"
  PyObject_GetAttrString :: "addr \<Rightarrow> string \<Rightarrow> 'rt \<Rightarrow> addr \<times> 'rt"
  PyObject_SetAttrString :: "addr \<Rightarrow> string \<Rightarrow> addr \<Rightarrow> 'rt \<Rightarrow> cint \<times> 'rt"

subsection \<open>Process state and outcomes\<close>

text \<open>
  An indirect call made by the bridge: the slot it goes through and the arguments. The
  process records them in order, so that what a routine invoked, and what it did not,
  can be read off afterwards.
\<close>

datatype event =
    Call_pyarg_parsetuple addr string
  | Call_py_buildvalue string "cval list"
  | Call_pyunicode_fromstring string
  | Call_py_boolfromlong clong
  | Call_py_runString string cint addr addr
  | Call_py_errorprint
  | Call_py_error_clear
  | Call_py_getitemstring addr string
  | Call_py_setitemstring addr string addr
  | Call_py_evalgetbuiltins
  | Call_py_import_addmodule string
  | Call_py_module_getdict addr
  | Call_py_object_getattrstring addr string
  | Call_py_object_setattrstring addr string addr

record 'rt process =
  symbols :: symtab
  interp :: 'rt
  calls :: "event list"
  console :: "string list"

text \<open>
  A routine returns a value, or the process ends inside it: by \<^verbatim>\<open>exit\<close> with a status, or
  by the call through a nil function pointer. Each outcome carries the process state
  reached.
\<close>

datatype ('a, 's) outcome = Returns 'a 's | Exits cint 's | Crashes 's

fun state_of :: "('a, 's) outcome \<Rightarrow> 's" where
  "state_of (Returns a s) = s"
| "state_of (Exits c s) = s"
| "state_of (Crashes s) = s"

text \<open>The value a routine returned, if it returned.\<close>

fun returned :: "('a, 's) outcome \<Rightarrow> 'a option" where
  "returned (Returns a s) = Some a"
| "returned (Exits c s) = None"
| "returned (Crashes s) = None"

fun then_do :: "('a, 's) outcome \<Rightarrow> ('a \<Rightarrow> 's \<Rightarrow> ('b, 's) outcome) \<Rightarrow> ('b, 's) outcome" where
  "then_do (Returns a s) k = k a s"
| "then_do (Exits c s) k = Exits c s"
| "then_do (Crashes s) k = Crashes s"

text \<open>
  \<^verbatim>\<open>(*fp)(...)\<close>: the call is recorded; through a nil pointer the process ends there,
  otherwise the entry point runs on the runtime state.
\<close>

definition call_through ::
  "addr \<Rightarrow> event \<Rightarrow> ('rt \<Rightarrow> 'a \<times> 'rt) \<Rightarrow> 'rt process \<Rightarrow> ('a, 'rt process) outcome" where
  "call_through fp ev entry p =
     (let p1 = p\<lparr>calls := calls p @ [ev]\<rparr>
      in if fp = 0 then Crashes p1
         else (case entry (interp p) of (r, s) \<Rightarrow> Returns r (p1\<lparr>interp := s\<rparr>)))"

text \<open>The calls a routine added to the record of a process that started in \<open>p\<close>.\<close>

definition new_calls :: "'rt process \<Rightarrow> ('a, 'rt process) outcome \<Rightarrow> event list" where
  "new_calls p out = drop (length (calls p)) (calls (state_of out))"

subsection \<open>Argument parser\<close>

text \<open>
  The locals \<^verbatim>\<open>value\<close>, \<^verbatim>\<open>valueA\<close>, ... are declared without an initialiser and handed
  to the parse entry point by address. After the call a local holds what the entry point
  stored at its position; where nothing of the local's type was stored its content is
  indeterminate, which is \<open>None\<close>. The \<^verbatim>\<open>int\<close> status is converted to the \<^verbatim>\<open>long int\<close>
  behind \<^verbatim>\<open>error\<close>. Output parameters are returned beside the result, in the order
  (result, \<^verbatim>\<open>*objectB\<close>, \<^verbatim>\<open>*objectC\<close>, \<^verbatim>\<open>*error\<close>).
\<close>

definition written :: "cval option list \<Rightarrow> nat \<Rightarrow> cval option" where
  "written ws i = (if i < length ws then ws ! i else None)"




fun as_object :: "cval option \<Rightarrow> addr option" where
  "as_object (Some (VObj a)) = Some a"
| "as_object _ = None"




definition parseArgsToObject ::
  "'rt runtime \<Rightarrow> addr \<Rightarrow> 'rt process \<Rightarrow> (addr option \<times> clong, 'rt process) outcome" where
  "parseArgsToObject R args p =
     then_do (call_through (pyarg_parsetuple (symbols p)) (Call_pyarg_parsetuple args ''O'')
                (PyArg_ParseTuple R args ''O'') p)
       (\<lambda>(result, ws) p1. Returns (as_object (written ws 0), scast result) p1)"

definition parseArgsToObjectPair ::
  "'rt runtime \<Rightarrow> addr \<Rightarrow> 'rt process
     \<Rightarrow> (addr option \<times> addr option \<times> clong, 'rt process) outcome" where
  "parseArgsToObjectPair R args p =
     then_do (call_through (pyarg_parsetuple (symbols p)) (Call_pyarg_parsetuple args ''OO'')
                (PyArg_ParseTuple R args ''OO'') p)
       (\<lambda>(result, ws) p1.
          Returns (as_object (written ws 0), as_object (written ws 1), scast result) p1)"

definition parseArgsToObjectTriple ::
  "'rt runtime \<Rightarrow> addr \<Rightarrow> 'rt process
     \<Rightarrow> (addr option \<times> addr option \<times> addr option \<times> clong, 'rt process) outcome" where
  "parseArgsToObjectTriple R args p =
     then_do (call_through (pyarg_parsetuple (symbols p)) (Call_pyarg_parsetuple args ''OOO'')
                (PyArg_ParseTuple R args ''OOO'') p)
       (\<lambda>(result, ws) p1.
          Returns (as_object (written ws 0), as_object (written ws 1),
                   as_object (written ws 2), scast result) p1)"

subsection \<open>Value wrapper\<close>




definition wrapObject :: "'rt runtime \<Rightarrow> addr \<Rightarrow> 'rt process \<Rightarrow> (addr, 'rt process) outcome" where
  "wrapObject R v p =
     call_through (py_buildvalue (symbols p)) (Call_py_buildvalue ''O'' [VObj v])
       (Py_BuildValue R ''O'' [VObj v]) p"

definition wrapBool :: "'rt runtime \<Rightarrow> clong \<Rightarrow> 'rt process \<Rightarrow> (addr, 'rt process) outcome" where
  "wrapBool R v p =
     call_through (py_boolfromlong (symbols p)) (Call_py_boolfromlong v) (PyBool_FromLong R v) p"

subsection \<open>Execution bridge\<close>



definition printErrors :: "'rt runtime \<Rightarrow> 'rt process \<Rightarrow> (unit, 'rt process) outcome" where
  "printErrors R p = call_through (py_errorprint (symbols p)) Call_py_errorprint (PyErr_Print R) p"

definition clearErrors :: "'rt runtime \<Rightarrow> 'rt process \<Rightarrow> (unit, 'rt process) outcome" where
  "clearErrors R p = call_through (py_error_clear (symbols p)) Call_py_error_clear (PyErr_Clear R) p"

text \<open>
  \<^verbatim>\<open>executePythonCode\<close>. The first step is the check of the globals: \<open>True\<close> when the
  routine has to return \<^verbatim>\<open>NULL\<close> at once. The argument of the set call,
  \<^verbatim>\<open>(*py_evalgetbuiltins)()\<close>, is evaluated before the set call is made.
\<close>

definition ensure_builtins :: "'rt runtime \<Rightarrow> addr \<Rightarrow> 'rt process \<Rightarrow> (bool, 'rt process) outcome" where
  "ensure_builtins R globals p =
     then_do (call_through (py_getitemstring (symbols p))
                (Call_py_getitemstring globals ''__builtins__'')
                (PyDict_GetItemString R globals ''__builtins__'') p)
       (\<lambda>found p1.
          if found = 0 then
            then_do (call_through (py_evalgetbuiltins (symbols p1)) Call_py_evalgetbuiltins
                       (PyEval_GetBuiltins R) p1)
              (\<lambda>builtins p2.
                 then_do (call_through (py_setitemstring (symbols p2))
                            (Call_py_setitemstring globals ''__builtins__'' builtins)
                            (PyDict_SetItemString R globals ''__builtins__'' builtins) p2)
                   (\<lambda>status p3. Returns (status \<noteq> 0) p3))
          else Returns False p1)"

definition executePythonCode ::
  "'rt runtime \<Rightarrow> string \<Rightarrow> cint \<Rightarrow> addr \<Rightarrow> addr \<Rightarrow> cint \<Rightarrow> 'rt process
     \<Rightarrow> (addr, 'rt process) outcome" where
  "executePythonCode R code start globals locals showErrors p =
     then_do (ensure_builtins R globals p)
       (\<lambda>give_up p1.
          if give_up then Returns 0 p1
          else
            then_do (call_through (py_runString (symbols p1))
                       (Call_py_runString code start globals locals)
                       (PyRun_String R code start globals locals) p1)
              (\<lambda>value p2.
                 then_do (if showErrors \<noteq> 0 then printErrors R p2 else clearErrors R p2)
                   (\<lambda>_ p3. Returns value p3)))"



definition getAttrString ::
  "'rt runtime \<Rightarrow> addr \<Rightarrow> string \<Rightarrow> 'rt process \<Rightarrow> (addr, 'rt process) outcome" where
  "getAttrString R obj attr p =
     call_through (py_object_getattrstring (symbols p)) (Call_py_object_getattrstring obj attr)
       (PyObject_GetAttrString R obj attr) p"

definition setAttrString ::
  "'rt runtime \<Rightarrow> addr \<Rightarrow> string \<Rightarrow> addr \<Rightarrow> 'rt process \<Rightarrow> (cint, 'rt process) outcome" where
  "setAttrString R obj attr value p =
     then_do (call_through (py_object_setattrstring (symbols p))
                (Call_py_object_setattrstring obj attr value)
                (PyObject_SetAttrString R obj attr value) p)
       (\<lambda>status p1. Returns (if status = 0 then 1 else 0) p1)"

definition getModule :: "'rt runtime \<Rightarrow> string \<Rightarrow> 'rt process \<Rightarrow> (addr, 'rt process) outcome" where
  "getModule R name p =
     call_through (py_import_addmodule (symbols p)) (Call_py_import_addmodule ''__main__'')
       (PyImport_AddModule R ''__main__'') p"

subsection \<open>Reading the record of calls\<close>

fun is_error_op :: "event \<Rightarrow> bool" where
  "is_error_op Call_py_errorprint = True"
| "is_error_op Call_py_error_clear = True"
| "is_error_op _ = False"

fun is_run :: "event \<Rightarrow> bool" where
  "is_run (Call_py_runString code start globals locals) = True"
| "is_run _ = False"

text \<open>
  The call that \<^verbatim>\<open>printErrors\<close>, respectively \<^verbatim>\<open>clearErrors\<close>, consists of; which of the
  two \<^verbatim>\<open>executePythonCode\<close> picks for a value of its flag.
\<close>

definition error_op_for :: "cint \<Rightarrow> event" where
  "error_op_for showErrors =
     (if showErrors \<noteq> 0 then Call_py_errorprint else Call_py_error_clear)"

text \<open>
  The source text has been executed by a routine started in \<open>p\<close>: the run-source slot is
  resolved and the routine called through it.
\<close>

definition source_executed :: "'rt process \<Rightarrow> ('a, 'rt process) outcome \<Rightarrow> bool" where
  "source_executed p out = (py_runString (symbols p) \<noteq> 0 \<and> list_ex is_run (new_calls p out))"

subsection \<open>Contract of the parse entry point\<close>

text \<open>
  Which references an argument bundle carries is known to the runtime only. The law below
  states what the parse entry point does with the format \<^verbatim>\<open>OO\<close>, over an observation of
  the runtime state that is a parameter as well: \<open>bundle s args items\<close>, the reference
  \<open>args\<close> is an argument bundle with exactly these items in state \<open>s\<close>. It is a hypothesis
  of the theorem on \<^verbatim>\<open>parseArgsToObjectPair\<close>, never a fact.

  Parse with \<^verbatim>\<open>OO\<close>: on a bundle of two references both are stored in order with a
  nonzero status; on a bundle of any other length the status is 0 and nothing is stored.
\<close>

definition pair_parse_law :: "'rt runtime \<Rightarrow> ('rt \<Rightarrow> addr \<Rightarrow> addr list \<Rightarrow> bool) \<Rightarrow> bool" where
  "pair_parse_law R bundle =
     (\<forall>s args items. bundle s args items \<longrightarrow>
        (if length items = 2
         then fst (fst (PyArg_ParseTuple R args ''OO'' s)) \<noteq> 0
              \<and> written (snd (fst (PyArg_ParseTuple R args ''OO'' s))) 0 = Some (VObj (items ! 0))
              \<and> written (snd (fst (PyArg_ParseTuple R args ''OO'' s))) 1 = Some (VObj (items ! 1))
         else fst (fst (PyArg_ParseTuple R args ''OO'' s)) = 0
              \<and> written (snd (fst (PyArg_ParseTuple R args ''OO'' s))) 0 = None
              \<and> written (snd (fst (PyArg_ParseTuple R args ''OO'' s))) 1 = None))"

subsection \<open>Resolution of the global dictionary\<close>


subsection \<open>Processes for the examples\<close>

text \<open>
  A runtime whose every entry point returns 0 and changes nothing, and one whose
  dictionary store always reports failure.
\<close>

definition idle_runtime :: "'rt runtime" where
  "idle_runtime =
     \<lparr>PyArg_ParseTuple = (\<lambda>args fmt s. ((0, []), s)),
      Py_BuildValue = (\<lambda>fmt vs s. (0, s)),
      PyUnicode_FromString = (\<lambda>u s. (0, s)),
      PyBool_FromLong = (\<lambda>v s. (0, s)),
      PyRun_String = (\<lambda>code start globals locals s. (0, s)),
      PyErr_Print = (\<lambda>s. ((), s)),
      PyErr_Clear = (\<lambda>s. ((), s)),
      PyDict_GetItemString = (\<lambda>d k s. (0, s)),
      PyDict_SetItemString = (\<lambda>d k v s. (0, s)),
      PyEval_GetBuiltins = (\<lambda>s. (0, s)),
      PyImport_AddModule = (\<lambda>n s. (0, s)),
      PyModule_GetDict = (\<lambda>m s. (0, s)),
      PyObject_GetAttrString = (\<lambda>obj n s. (0, s)),
      PyObject_SetAttrString = (\<lambda>obj n v s. (0, s))\<rparr>"

definition refusing_runtime :: "'rt runtime" where
  "refusing_runtime = idle_runtime\<lparr>PyDict_SetItemString := (\<lambda>d k v s. (0xFFFFFFFF, s))\<rparr>"

text \<open>A process right after \<^verbatim>\<open>initialisePythonLibrary\<close> with handle 4096.\<close>

definition booted :: "(addr \<Rightarrow> string \<Rightarrow> addr) \<Rightarrow> 'rt \<Rightarrow> 'rt process" where
  "booted lib s = \<lparr>symbols = initialisePythonLibrary lib 4096 unloaded, interp = s,
                   calls = [], console = []\<rparr>"

text \<open>
  A small runtime with a heap, for the examples: scalar objects, argument bundles, and
  one table of named bindings used for dictionaries and attributes alike. Building a
  scalar allocates at \<open>fresh\<close>; parsing reads the items of a bundle against the format.
\<close>

record heap =
  native :: "addr \<Rightarrow> cval option"
  elements :: "addr \<Rightarrow> addr list option"
  bound :: "addr \<Rightarrow> string \<Rightarrow> addr"
  fresh :: addr

text \<open>The format code of a native value, as the wrappers and the parsers spell it.\<close>

fun code_of :: "cval \<Rightarrow> string" where
  "code_of (VLong n) = ''l''"
| "code_of (VDouble d) = ''d''"
| "code_of (VStr x) = ''s''"
| "code_of (VObj a) = ''O''"

definition read_item :: "heap \<Rightarrow> char \<Rightarrow> addr \<Rightarrow> cval option" where
  "read_item s c item =
     (if c = CHR ''O'' then Some (VObj item)
      else (case native s item of
              None \<Rightarrow> None
            | Some v \<Rightarrow> if code_of v = [c] then Some v else None))"

definition heap_parse :: "addr \<Rightarrow> string \<Rightarrow> heap \<Rightarrow> (cint \<times> cval option list) \<times> heap" where
  "heap_parse args fmt s =
     (case elements s args of
        None \<Rightarrow> ((0, []), s)
      | Some items \<Rightarrow>
          (let got = map (\<lambda>(c, item). read_item s c item) (zip fmt items)
           in if length items = length fmt \<and> list_all (\<lambda>w. w \<noteq> None) got
              then ((1, got), s) else ((0, []), s)))"

definition heap_build :: "string \<Rightarrow> cval list \<Rightarrow> heap \<Rightarrow> addr \<times> heap" where
  "heap_build fmt vs s =
     (case vs of
        [VObj a] \<Rightarrow> (if fmt = ''O'' then (a, s) else (0, s))
      | [v] \<Rightarrow> (if fmt = code_of v
                then (fresh s, s\<lparr>native := (native s)(fresh s \<mapsto> v), fresh := fresh s + 1\<rparr>)
                else (0, s))
      | _ \<Rightarrow> (0, s))"

definition heap_store :: "addr \<Rightarrow> string \<Rightarrow> addr \<Rightarrow> heap \<Rightarrow> heap" where
  "heap_store d k v s = s\<lparr>bound := (bound s)(d := (bound s d)(k := v))\<rparr>"

definition heap_runtime :: "heap runtime" where
  "heap_runtime = idle_runtime
     \<lparr>PyArg_ParseTuple := heap_parse,
      Py_BuildValue := heap_build,
      PyDict_GetItemString := (\<lambda>d k s. (bound s d k, s)),
      PyDict_SetItemString := (\<lambda>d k v s. (0, heap_store d k v s)),
      PyImport_AddModule := (\<lambda>n s. (if n = ''__main__'' then 1024 else 0, s)),
      PyModule_GetDict := (\<lambda>m s. (m + 8, s)),
      PyObject_GetAttrString := (\<lambda>obj n s. (bound s obj n, s)),
      PyObject_SetAttrString := (\<lambda>obj n v s. (0, heap_store obj n v s))\<rparr>"

definition heap_bundle :: "heap \<Rightarrow> addr \<Rightarrow> addr list \<Rightarrow> bool" where
  "heap_bundle s args items = (elements s args = Some items)"



definition intercepting_runtime :: "heap runtime" where
  "intercepting_runtime = heap_runtime
     \<lparr>PyObject_GetAttrString := (\<lambda>obj n s. (if obj = 768 then 999 else bound s obj n, s)),
      PyObject_SetAttrString := (\<lambda>obj n v s. (0, if obj = 768 then s else heap_store obj n v s))\<rparr>"


definition empty_heap :: heap where
  "empty_heap = \<lparr>native = (\<lambda>a. None), elements = (\<lambda>a. None), bound = (\<lambda>a k. 0), fresh = 256\<rparr>"


definition two_bundles :: heap where
  "two_bundles = empty_heap\<lparr>elements := (\<lambda>a. None)(512 \<mapsto> [256, 257], 513 \<mapsto> [256])\<rparr>"

section \<open>The symbol table\<close>

lemma slots_initialisePythonLibrary:
  "slots (initialisePythonLibrary dlsym h t) = map (\<lambda>(n, slot). dlsym h n) entry_points"
  by (simp add: slots_def entry_points_def initialisePythonLibrary_def)

lemma distinct_entry_names: "distinct (map fst entry_points)"
  by (simp add: entry_points_def)

lemma slot_initialisePythonLibrary:
  assumes "(n, slot) \<in> set entry_points"
  shows "slot (initialisePythonLibrary dlsym h t) = dlsym h n"
  using assms unfolding entry_points_def
  by (auto simp: initialisePythonLibrary_def)

text \<open>
  C3. Calling \<^verbatim>\<open>initialisePythonLibrary\<close> a second time with the same handle changes
  nothing: the table after the second call is the table after the first, so every
  function-pointer slot holds the address it held after the first call, which is the
  address the loader gives for the slot's name.
\<close>

theorem initialisePythonLibrary_idempotent:
  "initialisePythonLibrary dlsym h (initialisePythonLibrary dlsym h t)
     = initialisePythonLibrary dlsym h t
   \<and> slots (initialisePythonLibrary dlsym h (initialisePythonLibrary dlsym h t))
     = slots (initialisePythonLibrary dlsym h t)
   \<and> slots (initialisePythonLibrary dlsym h t) = map (\<lambda>(n, slot). dlsym h n) entry_points"
proof -
  have "initialisePythonLibrary dlsym h (initialisePythonLibrary dlsym h t)
          = initialisePythonLibrary dlsym h t"
    by (simp add: initialisePythonLibrary_def)
  then show ?thesis
    by (simp add: slots_initialisePythonLibrary)
qed

lemma one_key_in_distinct:
  assumes "distinct (map fst xs)" and "k \<in> fst ` set xs"
  shows "length (filter (\<lambda>x. fst x = k) xs) = 1"
  using assms
proof (induction xs)
  case Nil
  then show ?case by simp
next
  case (Cons x xs)
  show ?case
  proof (cases "fst x = k")
    case True
    with Cons.prems have "k \<notin> fst ` set xs"
      by auto
    then have "filter (\<lambda>x. fst x = k) xs = []"
      by (auto simp: filter_empty_conv)
    with True show ?thesis by simp
  next
    case False
    with Cons show ?thesis by auto
  qed
qed

lemma one_nil_slot:
  assumes "missing \<in> fst ` set entry_points"
    and "dlsym h missing = 0"
    and "\<forall>n \<in> fst ` set entry_points. n \<noteq> missing \<longrightarrow> dlsym h n \<noteq> 0"
  shows "length (filter (\<lambda>a. a = 0) (slots (initialisePythonLibrary dlsym h t))) = 1"
proof -
  have "filter (\<lambda>a. a = 0) (slots (initialisePythonLibrary dlsym h t))
          = map (\<lambda>(n, slot). dlsym h n) (filter (\<lambda>x. dlsym h (fst x) = 0) entry_points)"
    by (simp add: slots_initialisePythonLibrary filter_map comp_def case_prod_beta)
  also have "filter (\<lambda>x. dlsym h (fst x) = 0) entry_points
               = filter (\<lambda>x. fst x = missing) entry_points"
    using assms(2,3) by (intro filter_cong refl) auto
  finally show ?thesis
    using one_key_in_distinct [OF distinct_entry_names assms(1)] by simp
qed

text \<open>
  C4. When exactly one entry-point name \<open>missing\<close> fails to resolve against the handle
  (the loader gives 0 for it and a non-null address for every other name), the table
  after \<^verbatim>\<open>initialisePythonLibrary\<close> has the slot of that name nil and every other slot
  non-nil, whatever the table held before: one nil slot among the twenty-two.
\<close>

theorem initialisePythonLibrary_one_missing:
  assumes "missing \<in> fst ` set entry_points"
    and "dlsym h missing = 0"
    and "\<forall>n \<in> fst ` set entry_points. n \<noteq> missing \<longrightarrow> dlsym h n \<noteq> 0"
  shows "(\<forall>(n, slot) \<in> set entry_points.
            (slot (initialisePythonLibrary dlsym h t) = 0) = (n = missing))
         \<and> length (filter (\<lambda>a. a = 0) (slots (initialisePythonLibrary dlsym h t))) = 1"
proof
  show "\<forall>(n, slot) \<in> set entry_points.
          (slot (initialisePythonLibrary dlsym h t) = 0) = (n = missing)"
  proof (clarify)
    fix n slot
    assume mem: "(n, slot) \<in> set entry_points"
    then have val: "slot (initialisePythonLibrary dlsym h t) = dlsym h n"
      by (rule slot_initialisePythonLibrary)
    from mem have "n \<in> fst ` set entry_points"
      by force
    with assms(2,3) val
    show "(slot (initialisePythonLibrary dlsym h t) = 0) = (n = missing)"
      by auto
  qed
  show "length (filter (\<lambda>a. a = 0) (slots (initialisePythonLibrary dlsym h t))) = 1"
    using assms by (rule one_nil_slot)
qed

theorem initialisePythonLibrary_one_missing_witness:
  "py_errorprint (initialisePythonLibrary lib_without_print 4096 unloaded) = 0
   \<and> py_error_clear (initialisePythonLibrary lib_without_print 4096 unloaded) \<noteq> 0
   \<and> py_runString (initialisePythonLibrary lib_without_print 4096 unloaded) \<noteq> 0
   \<and> pyarg_parsetuple (initialisePythonLibrary lib_without_print 4096 unloaded) \<noteq> 0"
proof -
  have a: "''PyErr_Print'' \<in> fst ` set entry_points"
    by (simp add: entry_points_def)
  have b: "lib_without_print 4096 ''PyErr_Print'' = 0"
    by (simp add: lib_without_print_def)
  have c: "\<forall>n \<in> fst ` set entry_points. n \<noteq> ''PyErr_Print'' \<longrightarrow> lib_without_print 4096 n \<noteq> 0"
    by (simp add: entry_points_def lib_without_print_def full_library_def)
  have "\<forall>(n, slot) \<in> set entry_points.
          (slot (initialisePythonLibrary lib_without_print 4096 unloaded) = 0) = (n = ''PyErr_Print'')"
    using initialisePythonLibrary_one_missing
            [where dlsym = lib_without_print and h = 4096 and t = unloaded, OF a b c]
    by (rule conjunct1)
  then show ?thesis
    by (simp add: entry_points_def)
qed

section \<open>The execution bridge\<close>

lemma call_through_nil [simp]:
  "call_through 0 ev entry p = Crashes (p\<lparr>calls := calls p @ [ev]\<rparr>)"
  by (simp add: call_through_def)

lemma call_through_resolved:
  "fp \<noteq> 0 \<Longrightarrow> call_through fp ev entry p =
     Returns (fst (entry (interp p))) (p\<lparr>calls := calls p @ [ev], interp := snd (entry (interp p))\<rparr>)"
  by (simp add: call_through_def split: prod.splits)

lemma ensure_builtins_shape:
  "\<exists>q pre. (ensure_builtins R g p = Crashes q \<or> (\<exists>b. ensure_builtins R g p = Returns b q))
     \<and> calls q = calls p @ pre \<and> filter is_error_op pre = [] \<and> \<not> list_ex is_run pre
     \<and> symbols q = symbols p"
proof (cases "py_getitemstring (symbols p) = 0")
  case True
  then show ?thesis
    by (simp add: ensure_builtins_def)
next
  case lookup: False
  show ?thesis
  proof (cases "fst (PyDict_GetItemString R g ''__builtins__'' (interp p)) = 0")
    case False
    with lookup show ?thesis
      by (auto simp: ensure_builtins_def call_through_resolved)
  next
    case absent: True
    show ?thesis
    proof (cases "py_evalgetbuiltins (symbols p) = 0")
      case True
      with lookup absent show ?thesis
        by (simp add: ensure_builtins_def call_through_resolved)
    next
      case get: False
      show ?thesis
      proof (cases "py_setitemstring (symbols p) = 0")
        case True
        with lookup absent get show ?thesis
          by (simp add: ensure_builtins_def call_through_resolved)
      next
        case False
        with lookup absent get show ?thesis
          by (simp add: ensure_builtins_def call_through_resolved)
      qed
    qed
  qed
qed

lemma symbols_booted_full:
  "symbols (booted full_library s) =
     \<lparr>pythonLibraryHandle = 4096, pyarg_parsetuple = 4112, py_buildvalue = 4128,
      pyunicode_asutf8 = 4144, pyunicode_fromstring = 4160, py_createPyCFunction = 4176,
      py_boolfromlong = 4192, py_runString = 4208, py_errorprint = 4224,
      py_getitemstring = 4240, py_setitemstring = 4256, py_evalgetbuiltins = 4272,
      py_getglobals = 4288, py_import_addmodule = 4304, py_import_getmodule = 4320,
      py_module_getdict = 4336, py_object_getattrstring = 4352,
      py_object_setattrstring = 4368, py_run_interactiveone = 4384, py_error_clear = 4400,
      py_compile_string = 4416, py_err_occurred = 4432, py_execute = 4448\<rparr>"
  by (simp add: booted_def initialisePythonLibrary_def full_library_def entry_points_def
      unloaded_def)

lemma executePythonCode_calls:
  "let out = executePythonCode R code start globals locals showErrors p;
       tr = new_calls p out
   in (source_executed p out \<longrightarrow>
         (\<exists>pre. tr = pre @ [Call_py_runString code start globals locals, error_op_for showErrors]
                \<and> filter is_error_op pre = []))
      \<and> (\<not> source_executed p out \<longrightarrow> filter is_error_op tr = [])"
proof -
  obtain q pre where
    eb: "ensure_builtins R globals p = Crashes q \<or> (\<exists>b. ensure_builtins R globals p = Returns b q)"
    and cq: "calls q = calls p @ pre" and nop: "filter is_error_op pre = []"
    and nrun: "\<not> list_ex is_run pre" and sq: "symbols q = symbols p"
    using ensure_builtins_shape [of R globals p] by blast
  from eb consider
      (crash) "ensure_builtins R globals p = Crashes q"
    | (give_up) "ensure_builtins R globals p = Returns True q"
    | (go) "ensure_builtins R globals p = Returns False q"
    by (metis (full_types))
  then show ?thesis
  proof cases
    case crash
    then show ?thesis
      using cq nop nrun
      by (simp add: executePythonCode_def new_calls_def source_executed_def)
  next
    case give_up
    then show ?thesis
      using cq nop nrun
      by (simp add: executePythonCode_def new_calls_def source_executed_def)
  next
    case go
    show ?thesis
    proof (cases "py_runString (symbols p) = 0")
      case True
      with go show ?thesis
        using cq nop sq
        by (simp add: executePythonCode_def new_calls_def source_executed_def)
    next
      case False
      then have rq: "py_runString (symbols q) \<noteq> 0"
        by (simp add: sq)
      show ?thesis
      proof (cases "showErrors \<noteq> 0")
        case True
        show ?thesis
        proof (cases "py_errorprint (symbols q) = 0")
          case True
          with go rq \<open>showErrors \<noteq> 0\<close> False cq nop show ?thesis
            by (simp add: executePythonCode_def new_calls_def source_executed_def
                call_through_resolved printErrors_def error_op_for_def)
        next
          case False
          with go rq \<open>showErrors \<noteq> 0\<close> \<open>py_runString (symbols p) \<noteq> 0\<close> cq nop show ?thesis
            by (simp add: executePythonCode_def new_calls_def source_executed_def
                call_through_resolved printErrors_def error_op_for_def)
        qed
      next
        case False
        show ?thesis
        proof (cases "py_error_clear (symbols q) = 0")
          case True
          with go rq \<open>\<not> showErrors \<noteq> 0\<close> \<open>py_runString (symbols p) \<noteq> 0\<close> cq nop show ?thesis
            by (simp add: executePythonCode_def new_calls_def source_executed_def
                call_through_resolved clearErrors_def error_op_for_def)
        next
          case False
          with go rq \<open>\<not> showErrors \<noteq> 0\<close> \<open>py_runString (symbols p) \<noteq> 0\<close> cq nop show ?thesis
            by (simp add: executePythonCode_def new_calls_def source_executed_def
                call_through_resolved clearErrors_def error_op_for_def)
        qed
      qed
    qed
  qed
qed

lemma error_op_absent:
  assumes "filter is_error_op tr = ops" and "ev \<notin> set ops" and "is_error_op ev"
  shows "ev \<notin> set tr"
proof
  assume "ev \<in> set tr"
  with assms(3) have "ev \<in> set (filter is_error_op tr)"
    by simp
  with assms(1,2) show False
    by simp
qed

lemma executePythonCode_record:
  "let out = executePythonCode R code start globals locals showErrors p;
       tr = new_calls p out
   in (source_executed p out \<longrightarrow>
         (\<exists>pre. tr = pre @ [Call_py_runString code start globals locals, error_op_for showErrors]
                \<and> filter is_error_op pre = []))
      \<and> (\<not> source_executed p out \<longrightarrow> filter is_error_op tr = [])
      \<and> (showErrors \<noteq> 0 \<longrightarrow> Call_py_error_clear \<notin> set tr)
      \<and> (showErrors = 0 \<longrightarrow> Call_py_errorprint \<notin> set tr)"
proof -
  let ?out = "executePythonCode R code start globals locals showErrors p"
  let ?tr = "new_calls p ?out"
  have core: "(source_executed p ?out \<longrightarrow>
         (\<exists>pre. ?tr = pre @ [Call_py_runString code start globals locals, error_op_for showErrors]
                \<and> filter is_error_op pre = []))
      \<and> (\<not> source_executed p ?out \<longrightarrow> filter is_error_op ?tr = [])"
    using executePythonCode_calls [of R code start globals locals showErrors p]
    by (simp add: Let_def)
  have ops: "filter is_error_op ?tr = [] \<or> filter is_error_op ?tr = [error_op_for showErrors]"
  proof (cases "source_executed p ?out")
    case True
    with core obtain pre where "?tr = pre @ [Call_py_runString code start globals locals, error_op_for showErrors]"
      and "filter is_error_op pre = []"
      by blast
    then show ?thesis
      by (simp add: error_op_for_def)
  next
    case False
    with core show ?thesis by simp
  qed
  from ops obtain invoked where eq: "filter is_error_op ?tr = invoked"
    and few: "invoked = [] \<or> invoked = [error_op_for showErrors]"
    by blast
  have "showErrors \<noteq> 0 \<longrightarrow> Call_py_error_clear \<notin> set ?tr"
  proof
    assume "showErrors \<noteq> 0"
    with few have "Call_py_error_clear \<notin> set invoked"
      by (auto simp: error_op_for_def)
    with eq show "Call_py_error_clear \<notin> set ?tr"
      by (rule error_op_absent) simp
  qed
  moreover have "showErrors = 0 \<longrightarrow> Call_py_errorprint \<notin> set ?tr"
  proof
    assume "showErrors = 0"
    with few have "Call_py_errorprint \<notin> set invoked"
      by (auto simp: error_op_for_def)
    with eq show "Call_py_errorprint \<notin> set ?tr"
      by (rule error_op_absent) simp
  qed
  ultimately show ?thesis
    using core by (simp add: Let_def)
qed

lemma ensure_builtins_symbols:
  assumes "ensure_builtins R g p = Returns b q"
  shows "symbols q = symbols p"
  using ensure_builtins_shape [of R g p] assms by auto

lemma executePythonCode_shown:
  assumes "ensure_builtins R globals p = Returns False q"
    and "py_runString (symbols p) \<noteq> 0" and "showErrors \<noteq> 0"
    and "py_errorprint (symbols p) \<noteq> 0"
  shows "executePythonCode R code start globals locals showErrors p
           = Returns (fst (PyRun_String R code start globals locals (interp q)))
               (q\<lparr>calls := calls q @ [Call_py_runString code start globals locals,
                                        Call_py_errorprint],
                  interp := snd (PyErr_Print R
                                   (snd (PyRun_String R code start globals locals (interp q))))\<rparr>)"
  using assms ensure_builtins_symbols [OF assms(1)]
  by (simp add: executePythonCode_def printErrors_def call_through_resolved)

lemma executePythonCode_cleared:
  assumes "ensure_builtins R globals p = Returns False q"
    and "py_runString (symbols p) \<noteq> 0" and "showErrors = 0"
    and "py_error_clear (symbols p) \<noteq> 0"
  shows "executePythonCode R code start globals locals showErrors p
           = Returns (fst (PyRun_String R code start globals locals (interp q)))
               (q\<lparr>calls := calls q @ [Call_py_runString code start globals locals,
                                        Call_py_error_clear],
                  interp := snd (PyErr_Clear R
                                   (snd (PyRun_String R code start globals locals (interp q))))\<rparr>)"
  using assms ensure_builtins_symbols [OF assms(1)]
  by (simp add: executePythonCode_def clearErrors_def call_through_resolved)

text \<open>
  C1. In every call of \<^verbatim>\<open>executePythonCode\<close> in which the source text has been
  executed, the calls the routine made end with the run-source call followed by exactly
  one error operation and nothing else: the call of \<^verbatim>\<open>printErrors\<close> when \<open>showErrors\<close>
  is nonzero, the call of \<^verbatim>\<open>clearErrors\<close> when it is zero; no error operation precedes
  it. The operation the flag does not select is invoked in no call, so never both. In
  a call in which the source text has not been executed, no error operation is invoked
  at all. Where the check of the globals lets the routine go on from state \<open>q\<close> and the
  slots are resolved, the routine returns what the run-source entry point returned, in
  the runtime state that the selected error operation left.
\<close>

theorem executePythonCode_one_error_operation:
  "let out = executePythonCode R code start globals locals showErrors p;
       tr = new_calls p out
   in (source_executed p out \<longrightarrow>
         (\<exists>pre. tr = pre @ [Call_py_runString code start globals locals, error_op_for showErrors]
                \<and> filter is_error_op pre = []))
      \<and> (\<not> source_executed p out \<longrightarrow> filter is_error_op tr = [])
      \<and> (showErrors \<noteq> 0 \<longrightarrow> Call_py_error_clear \<notin> set tr)
      \<and> (showErrors = 0 \<longrightarrow> Call_py_errorprint \<notin> set tr)
      \<and> (ensure_builtins R globals p = Returns False q \<and> py_runString (symbols p) \<noteq> 0
            \<and> showErrors \<noteq> 0 \<and> py_errorprint (symbols p) \<noteq> 0 \<longrightarrow>
          out = Returns (fst (PyRun_String R code start globals locals (interp q)))
                  (q\<lparr>calls := calls q @ [Call_py_runString code start globals locals,
                                           Call_py_errorprint],
                     interp := snd (PyErr_Print R
                                 (snd (PyRun_String R code start globals locals (interp q))))\<rparr>))
      \<and> (ensure_builtins R globals p = Returns False q \<and> py_runString (symbols p) \<noteq> 0
            \<and> showErrors = 0 \<and> py_error_clear (symbols p) \<noteq> 0 \<longrightarrow>
          out = Returns (fst (PyRun_String R code start globals locals (interp q)))
                  (q\<lparr>calls := calls q @ [Call_py_runString code start globals locals,
                                           Call_py_error_clear],
                     interp := snd (PyErr_Clear R
                                 (snd (PyRun_String R code start globals locals (interp q))))\<rparr>))"
proof -
  let ?out = "executePythonCode R code start globals locals showErrors p"
  have shown: "ensure_builtins R globals p = Returns False q \<and> py_runString (symbols p) \<noteq> 0
            \<and> showErrors \<noteq> 0 \<and> py_errorprint (symbols p) \<noteq> 0 \<longrightarrow>
          ?out = Returns (fst (PyRun_String R code start globals locals (interp q)))
                  (q\<lparr>calls := calls q @ [Call_py_runString code start globals locals,
                                           Call_py_errorprint],
                     interp := snd (PyErr_Print R
                                 (snd (PyRun_String R code start globals locals (interp q))))\<rparr>)"
    using executePythonCode_shown [of R globals p q showErrors code start locals] by blast
  have cleared: "ensure_builtins R globals p = Returns False q \<and> py_runString (symbols p) \<noteq> 0
            \<and> showErrors = 0 \<and> py_error_clear (symbols p) \<noteq> 0 \<longrightarrow>
          ?out = Returns (fst (PyRun_String R code start globals locals (interp q)))
                  (q\<lparr>calls := calls q @ [Call_py_runString code start globals locals,
                                           Call_py_error_clear],
                     interp := snd (PyErr_Clear R
                                 (snd (PyRun_String R code start globals locals (interp q))))\<rparr>)"
    using executePythonCode_cleared [of R globals p q showErrors code start locals] by blast
  from shown cleared
    executePythonCode_record [of R code start globals locals showErrors p]
  show ?thesis
    by (simp only: Let_def) blast
qed

theorem executePythonCode_one_error_operation_witness:
  "(\<exists>pre. new_calls (booted full_library ())
               (executePythonCode idle_runtime ''1+1'' 258 7 7 1 (booted full_library ()))
             = pre @ [Call_py_runString ''1+1'' 258 7 7, Call_py_errorprint]
            \<and> filter is_error_op pre = [])
   \<and> (\<exists>pre. new_calls (booted full_library ())
               (executePythonCode idle_runtime ''1+1'' 258 7 7 0 (booted full_library ()))
             = pre @ [Call_py_runString ''1+1'' 258 7 7, Call_py_error_clear]
            \<and> filter is_error_op pre = [])"
proof -
  have shown: "source_executed (booted full_library ())
     (executePythonCode idle_runtime ''1+1'' 258 7 7 1 (booted full_library ()))"
    by (simp add: source_executed_def new_calls_def executePythonCode_def ensure_builtins_def
        printErrors_def call_through_def idle_runtime_def symbols_booted_full)
  have cleared: "source_executed (booted full_library ())
     (executePythonCode idle_runtime ''1+1'' 258 7 7 0 (booted full_library ()))"
    by (simp add: source_executed_def new_calls_def executePythonCode_def ensure_builtins_def
        clearErrors_def call_through_def idle_runtime_def symbols_booted_full)
  from shown
    executePythonCode_one_error_operation
         [where p = "booted full_library ()" and R = idle_runtime and code = "''1+1''"
            and start = 258 and globals = 7 and locals = 7 and showErrors = 1]
  have one: "\<exists>pre. new_calls (booted full_library ())
               (executePythonCode idle_runtime ''1+1'' 258 7 7 1 (booted full_library ()))
             = pre @ [Call_py_runString ''1+1'' 258 7 7, Call_py_errorprint]
            \<and> filter is_error_op pre = []"
    by (simp add: Let_def error_op_for_def)
  from cleared
    executePythonCode_one_error_operation
         [where p = "booted full_library ()" and R = idle_runtime and code = "''1+1''"
            and start = 258 and globals = 7 and locals = 7 and showErrors = 0]
  have "\<exists>pre. new_calls (booted full_library ())
               (executePythonCode idle_runtime ''1+1'' 258 7 7 0 (booted full_library ()))
             = pre @ [Call_py_runString ''1+1'' 258 7 7, Call_py_error_clear]
            \<and> filter is_error_op pre = []"
    by (simp add: Let_def error_op_for_def)
  with one show ?thesis
    by blast
qed

text \<open>
  C9. When the lookup of \<^verbatim>\<open>__builtins__\<close> in the globals gives \<^verbatim>\<open>NULL\<close> and the store of
  the runtime's built-in namespace reports a nonzero status, \<^verbatim>\<open>executePythonCode\<close>
  returns \<^verbatim>\<open>NULL\<close> after exactly three calls (lookup, get-builtins, store): the
  run-source entry point is not called and neither error operation is invoked.
\<close>

theorem executePythonCode_builtins_failure:
  assumes "py_getitemstring (symbols p) \<noteq> 0"
    and "py_evalgetbuiltins (symbols p) \<noteq> 0"
    and "py_setitemstring (symbols p) \<noteq> 0"
    and "PyDict_GetItemString R globals ''__builtins__'' (interp p) = (0, s1)"
    and "PyEval_GetBuiltins R s1 = (builtins, s2)"
    and "PyDict_SetItemString R globals ''__builtins__'' builtins s2 = (status, s3)"
    and "status \<noteq> 0"
  shows "executePythonCode R code start globals locals showErrors p
           = Returns 0 (p\<lparr>calls := calls p @ [Call_py_getitemstring globals ''__builtins__'',
                                                Call_py_evalgetbuiltins,
                                                Call_py_setitemstring globals ''__builtins__'' builtins],
                          interp := s3\<rparr>)
         \<and> \<not> list_ex is_run (new_calls p (executePythonCode R code start globals locals showErrors p))
         \<and> filter is_error_op (new_calls p (executePythonCode R code start globals locals showErrors p)) = []"
  using assms
  by (simp add: executePythonCode_def ensure_builtins_def call_through_resolved new_calls_def)

theorem executePythonCode_builtins_failure_witness:
  "executePythonCode refusing_runtime ''1+1'' 258 7 7 1 (booted full_library ())
     = Returns 0 ((booted full_library ())
         \<lparr>calls := [Call_py_getitemstring 7 ''__builtins__'', Call_py_evalgetbuiltins,
                    Call_py_setitemstring 7 ''__builtins__'' 0],
          interp := ()\<rparr>)"
proof -
  have slots: "py_getitemstring (symbols (booted full_library ())) \<noteq> 0"
    "py_evalgetbuiltins (symbols (booted full_library ())) \<noteq> 0"
    "py_setitemstring (symbols (booted full_library ())) \<noteq> 0"
    by (simp_all add: symbols_booted_full)
  have lookup: "PyDict_GetItemString refusing_runtime 7 ''__builtins__''
                  (interp (booted full_library ())) = (0, ())"
    by (simp add: refusing_runtime_def idle_runtime_def)
  have builtins: "PyEval_GetBuiltins refusing_runtime () = (0, ())"
    by (simp add: refusing_runtime_def idle_runtime_def)
  have store: "PyDict_SetItemString refusing_runtime 7 ''__builtins__'' 0 () = (0xFFFFFFFF, ())"
    by (simp add: refusing_runtime_def idle_runtime_def)
  have failed: "(0xFFFFFFFF :: addr) \<noteq> 0"
    by simp
  from executePythonCode_builtins_failure [OF slots lookup builtins store failed,
      where code = "''1+1''" and start = 258 and locals = 7 and showErrors = 1]
  show ?thesis
    by (simp add: booted_def)
qed



text \<open>
  C10. \<^verbatim>\<open>getModule\<close> does not use its argument: for any two names the outcome is the
  same, the only call made is the resolution of \<^verbatim>\<open>__main__\<close>, and with the slot resolved
  the result is what that resolution returned.
\<close>

theorem getModule_ignores_name:
  "getModule R a p = getModule R b p
   \<and> new_calls p (getModule R a p) = [Call_py_import_addmodule ''__main__'']
   \<and> (py_import_addmodule (symbols p) \<noteq> 0 \<longrightarrow>
        (\<exists>p1. getModule R a p = Returns (fst (PyImport_AddModule R ''__main__'' (interp p))) p1))"
  by (cases "py_import_addmodule (symbols p) = 0")
     (simp_all add: getModule_def new_calls_def call_through_resolved)

theorem getModule_ignores_name_witness:
  "getModule idle_runtime ''os'' (booted full_library ())
     = getModule idle_runtime ''sys'' (booted full_library ())
   \<and> new_calls (booted full_library ()) (getModule idle_runtime ''os'' (booted full_library ()))
     = [Call_py_import_addmodule ''__main__'']"
  using getModule_ignores_name
          [where R = idle_runtime and a = "''os''" and b = "''sys''"
             and p = "booted full_library ()"]
  by blast

section \<open>Marshalling\<close>

lemma heap_pair_parse_law: "pair_parse_law heap_runtime heap_bundle"
  unfolding pair_parse_law_def
proof (intro allI impI)
  fix s args items
  assume "heap_bundle s args items"
  then have e: "elements s args = Some items" by (simp add: heap_bundle_def)
  show "if length items = 2
         then fst (fst (PyArg_ParseTuple heap_runtime args ''OO'' s)) \<noteq> 0
              \<and> written (snd (fst (PyArg_ParseTuple heap_runtime args ''OO'' s))) 0 = Some (VObj (items ! 0))
              \<and> written (snd (fst (PyArg_ParseTuple heap_runtime args ''OO'' s))) 1 = Some (VObj (items ! 1))
         else fst (fst (PyArg_ParseTuple heap_runtime args ''OO'' s)) = 0
              \<and> written (snd (fst (PyArg_ParseTuple heap_runtime args ''OO'' s))) 0 = None
              \<and> written (snd (fst (PyArg_ParseTuple heap_runtime args ''OO'' s))) 1 = None"
  proof (cases "length items = 2")
    case True
    then obtain a b where "items = [a, b]"
      by (cases items; cases "tl items") auto
    with e show ?thesis
      by (simp add: heap_runtime_def idle_runtime_def heap_parse_def read_item_def written_def)
  next
    case False
    with e show ?thesis
      by (simp add: heap_runtime_def idle_runtime_def heap_parse_def written_def)
  qed
qed

lemma sint_scast_status: "sint (scast (st :: cint) :: clong) = sint st"
  by (rule sint_up_scast) (simp add: is_up)

lemma scast_status_eq_0: "((scast (st :: cint) :: clong) = 0) = (st = 0)"
proof
  assume "(scast st :: clong) = 0"
  then have "sint (scast st :: clong) = 0"
    by simp
  then have "sint st = 0"
    by (simp add: sint_scast_status)
  then show "st = 0"
    by (simp add: signed_eq_0_iff)
next
  assume "st = 0"
  then show "(scast st :: clong) = 0"
    by simp
qed




lemma parseArgsToObjectPair_resolved:
  assumes "pyarg_parsetuple (symbols q) \<noteq> 0"
  shows "parseArgsToObjectPair R args q
           = Returns (as_object (written (snd (fst (PyArg_ParseTuple R args ''OO'' (interp q)))) 0),
                      as_object (written (snd (fst (PyArg_ParseTuple R args ''OO'' (interp q)))) 1),
                      scast (fst (fst (PyArg_ParseTuple R args ''OO'' (interp q)))))
               (q\<lparr>calls := calls q @ [Call_pyarg_parsetuple args ''OO''],
                  interp := snd (PyArg_ParseTuple R args ''OO'' (interp q))\<rparr>)"
  using assms by (simp add: parseArgsToObjectPair_def call_through_resolved case_prod_beta)













text \<open>
  C6. \<^verbatim>\<open>parseArgsToObjectPair\<close> calls the parse entry point with the format \<^verbatim>\<open>OO\<close> and
  stores its status, converted from \<^verbatim>\<open>int\<close> to \<^verbatim>\<open>long int\<close> with the same value, in
  \<^verbatim>\<open>*error\<close>. On a runtime that keeps the \<^verbatim>\<open>OO\<close> parse law: against a bundle of the two
  references \<open>a\<close>, \<open>b\<close> the result is \<open>a\<close>, \<^verbatim>\<open>*objectB\<close> is \<open>b\<close> and the status is nonzero;
  against a bundle of any other length the status is 0 and both outputs are the
  indeterminate contents of the uninitialised locals.
\<close>

theorem parseArgsToObjectPair_shapes:
  assumes slot: "pyarg_parsetuple (symbols p) \<noteq> 0"
    and law: "pair_parse_law R bundle"
  shows "(\<exists>valueA objectB p1.
            parseArgsToObjectPair R args p
              = Returns (valueA, objectB, scast (fst (fst (PyArg_ParseTuple R args ''OO'' (interp p))))) p1)
       \<and> sint (scast (fst (fst (PyArg_ParseTuple R args ''OO'' (interp p)))) :: clong)
           = sint (fst (fst (PyArg_ParseTuple R args ''OO'' (interp p))))
       \<and> (bundle (interp p) args [a, b] \<longrightarrow>
            (\<exists>error p1. parseArgsToObjectPair R args p = Returns (Some a, Some b, error) p1
                         \<and> error \<noteq> 0))
       \<and> (bundle (interp p) args items \<and> length items \<noteq> 2 \<longrightarrow>
            (\<exists>p1. parseArgsToObjectPair R args p = Returns (None, None, 0) p1))"
proof (intro conjI impI)
  show "\<exists>valueA objectB p1.
            parseArgsToObjectPair R args p
              = Returns (valueA, objectB, scast (fst (fst (PyArg_ParseTuple R args ''OO'' (interp p))))) p1"
    by (simp add: parseArgsToObjectPair_resolved [OF slot])
  show "sint (scast (fst (fst (PyArg_ParseTuple R args ''OO'' (interp p)))) :: clong)
           = sint (fst (fst (PyArg_ParseTuple R args ''OO'' (interp p))))"
    by (rule sint_scast_status)
next
  assume "bundle (interp p) args [a, b]"
  with law have "fst (fst (PyArg_ParseTuple R args ''OO'' (interp p))) \<noteq> 0"
    and "written (snd (fst (PyArg_ParseTuple R args ''OO'' (interp p)))) 0 = Some (VObj a)"
    and "written (snd (fst (PyArg_ParseTuple R args ''OO'' (interp p)))) 1 = Some (VObj b)"
    unfolding pair_parse_law_def by fastforce+
  then show "\<exists>error p1. parseArgsToObjectPair R args p = Returns (Some a, Some b, error) p1
                         \<and> error \<noteq> 0"
    by (simp add: parseArgsToObjectPair_resolved [OF slot] scast_status_eq_0)
next
  assume "bundle (interp p) args items \<and> length items \<noteq> 2"
  with law have "fst (fst (PyArg_ParseTuple R args ''OO'' (interp p))) = 0"
    and "written (snd (fst (PyArg_ParseTuple R args ''OO'' (interp p)))) 0 = None"
    and "written (snd (fst (PyArg_ParseTuple R args ''OO'' (interp p)))) 1 = None"
    unfolding pair_parse_law_def by fastforce+
  then show "\<exists>p1. parseArgsToObjectPair R args p = Returns (None, None, 0) p1"
    by (simp add: parseArgsToObjectPair_resolved [OF slot])
qed

theorem parseArgsToObjectPair_shapes_witness:
  "(\<exists>error p1. parseArgsToObjectPair heap_runtime 512 (booted full_library two_bundles)
                  = Returns (Some 256, Some 257, error) p1 \<and> error \<noteq> 0)
   \<and> (\<exists>p1. parseArgsToObjectPair heap_runtime 513 (booted full_library two_bundles)
              = Returns (None, None, 0) p1)"
proof -
  have slot: "pyarg_parsetuple (symbols (booted full_library two_bundles)) \<noteq> 0"
    by (simp add: symbols_booted_full)
  have pair: "heap_bundle (interp (booted full_library two_bundles)) 512 [256, 257]"
    by (simp add: heap_bundle_def booted_def two_bundles_def)
  have single: "heap_bundle (interp (booted full_library two_bundles)) 513 [256]
                  \<and> length [256 :: addr] \<noteq> 2"
    by (simp add: heap_bundle_def booted_def two_bundles_def)
  from parseArgsToObjectPair_shapes [OF slot heap_pair_parse_law,
         where args = 512 and a = 256 and b = 257] pair
  have first: "\<exists>error p1. parseArgsToObjectPair heap_runtime 512 (booted full_library two_bundles)
                  = Returns (Some 256, Some 257, error) p1 \<and> error \<noteq> 0"
    by blast
  from parseArgsToObjectPair_shapes [OF slot heap_pair_parse_law,
         where args = 513 and items = "[256]"] single
  have "\<exists>p1. parseArgsToObjectPair heap_runtime 513 (booted full_library two_bundles)
              = Returns (None, None, 0) p1"
    by blast
  with first show ?thesis
    by blast
qed

section \<open>Attributes and the global namespace\<close>

text \<open>
  C7, as amended. \<^verbatim>\<open>setAttrString\<close> returns 1 when the set-attribute entry point returned
  0 and 0 otherwise. \<^verbatim>\<open>getAttrString\<close> called next on the same object and name returns
  exactly what the get-attribute entry point returns in the state the store left: the
  value that was set when the runtime reads the store back, as it does for a plain
  attribute, and whatever the object's type computes where that type intercepts attribute
  access.
\<close>

theorem setAttrString_flag_and_read:
  assumes set_slot: "py_object_setattrstring (symbols p) \<noteq> 0"
    and get_slot: "py_object_getattrstring (symbols p) \<noteq> 0"
  shows "let stored = PyObject_SetAttrString R obj name v (interp p);
             p1 = p\<lparr>calls := calls p @ [Call_py_object_setattrstring obj name v],
                    interp := snd stored\<rparr>;
             read = PyObject_GetAttrString R obj name (snd stored)
         in setAttrString R obj name v p = Returns (if fst stored = 0 then 1 else 0) p1
            \<and> getAttrString R obj name p1
                = Returns (fst read)
                    (p1\<lparr>calls := calls p1 @ [Call_py_object_getattrstring obj name],
                        interp := snd read\<rparr>)
            \<and> (\<exists>p2. getAttrString R obj name p1 = Returns v p2) = (fst read = v)"
  using assms
  by (auto simp: Let_def setAttrString_def getAttrString_def call_through_resolved)

theorem setAttrString_flag_and_read_witness:
  "returned (setAttrString heap_runtime 256 ''x'' 257 (booted full_library empty_heap)) = Some 1
   \<and> returned (getAttrString heap_runtime 256 ''x''
        (state_of (setAttrString heap_runtime 256 ''x'' 257 (booted full_library empty_heap))))
     = Some 257"
proof -
  have slots: "py_object_setattrstring (symbols (booted full_library empty_heap)) \<noteq> 0"
    "py_object_getattrstring (symbols (booted full_library empty_heap)) \<noteq> 0"
    by (simp_all add: symbols_booted_full)
  from setAttrString_flag_and_read [OF slots,
      where R = heap_runtime and obj = 256 and name = "''x''" and v = 257]
  show ?thesis
    by (simp add: Let_def heap_runtime_def idle_runtime_def heap_store_def)
qed

text \<open>
  A true flag does not by itself give the value back: on the object whose type accepts
  and drops the store, \<^verbatim>\<open>setAttrString\<close> returns 1 and \<^verbatim>\<open>getAttrString\<close> returns 999, not
  the 257 that was set.
\<close>

theorem setAttrString_read_back_counterexample:
  "returned (setAttrString intercepting_runtime 768 ''x'' 257 (booted full_library empty_heap))
     = Some 1
   \<and> returned (getAttrString intercepting_runtime 768 ''x''
        (state_of (setAttrString intercepting_runtime 768 ''x'' 257
                     (booted full_library empty_heap))))
     = Some 999
   \<and> returned (getAttrString intercepting_runtime 768 ''x''
        (state_of (setAttrString intercepting_runtime 768 ''x'' 257
                     (booted full_library empty_heap))))
     \<noteq> Some 257"
  by (simp add: setAttrString_def getAttrString_def call_through_def symbols_booted_full
      intercepting_runtime_def heap_runtime_def idle_runtime_def)







end
